theory Spec2Isabelle
  imports Complex_Main
begin

section \<open>Values exchanged with the search capability\<close>

text \<open>
  The handlers of \<^verbatim>\<open>src/index.ts\<close> talk to one external collaborator, the binding
  \<^verbatim>\<open>this.env.AI.autorag\<close>. The argument object of every call is written out in the
  source: \<^verbatim>\<open>{ index, query, maxResults }\<close>. The limit is a JavaScript number that the
  handlers only pass on, never compute with or print; it is a \<open>real\<close> here, which
  every finite number of the language is.
\<close>

record search_request =
  index :: string
  query :: string
  maxResults :: real

text \<open>
  Modelled from the spec: the type of the binding is missing from the source
  (\<^verbatim>\<open>AI: any\<close>), so the shape of what it resolves with is the one of the data
  model: an item carries four optional strings, a response is absent or carries an
  optional sequence of items. A JavaScript value of type \<^verbatim>\<open>string | undefined\<close> is
  a \<open>string option\<close>, with \<open>None\<close> for \<^verbatim>\<open>undefined\<close>.
\<close>

record search_result_item =
  title :: "string option"
  url :: "string option"
  snippet :: "string option"
  content :: "string option"

record search_response =
  results :: "search_result_item list option"

text \<open>
  What a promise rejects with, and a \<^verbatim>\<open>catch\<close> clause receives, is any value of the
  language, not only an error object. The \<^verbatim>\<open>catch\<close> clauses of the handlers do one
  thing with it, reading its property \<^verbatim>\<open>message\<close>, and for that reading there are three
  kinds of value: \<^verbatim>\<open>undefined\<close>, \<^verbatim>\<open>null\<close>, and every other value, given here by
  what the reading yields: the message of an error object, \<^verbatim>\<open>undefined\<close> for a value
  that has no such property (a thrown string, a plain object).
\<close>

datatype thrown =
    Thrown_undefined
  | Thrown_null
  | Thrown_value "string option"

text \<open>An awaited promise either resolves with a value or rejects with a thrown one.\<close>

datatype 'a settled = Resolved 'a | Rejected thrown

type_synonym autorag_binding = "search_request \<Rightarrow> search_response option settled"

text \<open>The MCP envelope the handlers return: \<^verbatim>\<open>{ content: [{ type, text }] }\<close>.\<close>

record text_block =
  type :: string
  "text" :: string

record tool_response =
  content :: "text_block list"


section \<open>The JavaScript operators the handlers use\<close>

text \<open>
  \<^verbatim>\<open>a || b\<close> on values of type \<^verbatim>\<open>string | undefined\<close>: the left operand when it is
  truthy, the right one otherwise. \<^verbatim>\<open>undefined\<close> and the empty string are the two
  falsy values of that type.
\<close>

definition truthy :: "string option \<Rightarrow> bool" where
  "truthy v = (case v of None \<Rightarrow> False | Some s \<Rightarrow> s \<noteq> [])"

definition js_or :: "string option \<Rightarrow> string option \<Rightarrow> string option" where
  "js_or a b = (if truthy a then a else b)"

text \<open>
  A template literal \<^verbatim>\<open>`${v}`\<close> converts its operand to a string: a string is itself,
  \<^verbatim>\<open>undefined\<close> becomes the nine letters of its name.
\<close>

definition template :: "string option \<Rightarrow> string" where
  "template v = (case v of None \<Rightarrow> ''undefined'' | Some s \<Rightarrow> s)"

text \<open>
  \<^verbatim>\<open>`${n}`\<close> for a non-negative integer \<open>n\<close> (an array index plus one, an array
  length): its decimal digits.
\<close>

definition digit :: "nat \<Rightarrow> char" where
  "digit d = ''0123456789'' ! d"

function number_to_string :: "nat \<Rightarrow> string" where
  "number_to_string n =
     (if n < 10 then [digit n] else number_to_string (n div 10) @ [digit (n mod 10)])"
  by pat_completeness auto
termination
  by (relation "measure id") auto

declare number_to_string.simps [simp del]

text \<open>
  \<^verbatim>\<open>xs.map((item, index) => f(item, index))\<close>; the second argument is the index the
  traversal has reached, \<open>0\<close> at the call.
\<close>

primrec array_map :: "('a \<Rightarrow> nat \<Rightarrow> 'b) \<Rightarrow> nat \<Rightarrow> 'a list \<Rightarrow> 'b list" where
  "array_map f i [] = []"
| "array_map f i (item # items) = f item i # array_map f (Suc i) items"

text \<open>\<^verbatim>\<open>xs.join(sep)\<close> on an array of strings.\<close>

fun join :: "string \<Rightarrow> string list \<Rightarrow> string" where
  "join sep [] = []"
| "join sep [x] = x"
| "join sep (x # y # ys) = x @ sep @ join sep (y # ys)"

text \<open>
  \<^verbatim>\<open>await p\<close> followed by the rest of the \<^verbatim>\<open>try\<close> block, and
  \<^verbatim>\<open>try { ... } catch (error) { ... }\<close> around it: a rejection skips the rest of the
  block and enters the \<^verbatim>\<open>catch\<close> clause.
\<close>

definition await :: "'a settled \<Rightarrow> ('a \<Rightarrow> 'b settled) \<Rightarrow> 'b settled" where
  "await p rest = (case p of Rejected e \<Rightarrow> Rejected e | Resolved v \<Rightarrow> rest v)"

definition try_catch :: "'a settled \<Rightarrow> (thrown \<Rightarrow> 'a settled) \<Rightarrow> 'a settled" where
  "try_catch block handler = (case block of Rejected e \<Rightarrow> handler e | Resolved v \<Rightarrow> Resolved v)"

text \<open>
  \<^verbatim>\<open>error.message\<close> followed by the rest of the \<^verbatim>\<open>catch\<close> clause. Reading a
  property of \<^verbatim>\<open>undefined\<close> or \<^verbatim>\<open>null\<close> throws a \<^verbatim>\<open>TypeError\<close>, with the message
  the runtime's engine gives it; nothing encloses the \<^verbatim>\<open>catch\<close> clause, so the promise of
  the handler rejects with it.
\<close>

definition read_message :: "thrown \<Rightarrow> (string option \<Rightarrow> 'a settled) \<Rightarrow> 'a settled" where
  "read_message error rest =
     (case error of
        Thrown_undefined \<Rightarrow>
          Rejected (Thrown_value
            (Some ''Cannot read properties of undefined (reading 'message')''))
      | Thrown_null \<Rightarrow>
          Rejected (Thrown_value
            (Some ''Cannot read properties of null (reading 'message')''))
      | Thrown_value m \<Rightarrow> rest m)"

text \<open>
  A call of the binding is the one effect of a handler. The state that is passed along
  is the sequence of requests the binding has received so far.
\<close>

definition autorag ::
  "autorag_binding \<Rightarrow> search_request \<Rightarrow> search_request list
     \<Rightarrow> search_response option settled \<times> search_request list" where
  "autorag ai request calls = (ai request, calls @ [request])"


section \<open>The four tool handlers\<close>

text \<open>
  Each handler takes the binding, its validated arguments and the requests sent so
  far; it returns how its promise settles and the requests sent after it ran.
\<close>

definition search_products_item :: "search_result_item \<Rightarrow> nat \<Rightarrow> string" where
  "search_products_item item i =
     number_to_string (i + 1) @ ''. '' @ template (js_or (title item) (Some ''Untitled''))
       @ ''\<newline>   URL: '' @ template (js_or (url item) (Some ''N/A''))
       @ ''\<newline>   '' @ template (js_or (snippet item) (Some ''No description available''))"

definition search_products ::
  "autorag_binding \<Rightarrow> string \<Rightarrow> real \<Rightarrow> search_request list
     \<Rightarrow> tool_response settled \<times> search_request list" where
  \<open>search_products ai q max_results calls =
     (let (awaited, calls') =
            autorag ai \<lparr>index = ''cool-bush-e0f4'', query = q, maxResults = max_results\<rparr> calls;
          none_found =
            Resolved \<lparr>tool_response.content =
              [\<lparr>type = ''text'', text = ''No products found for query: "'' @ q @ ''"''\<rparr>]\<rparr>
      in (try_catch
            (await awaited (\<lambda>res.
               case res of None \<Rightarrow> none_found
               | Some r \<Rightarrow>
                   (case results r of None \<Rightarrow> none_found
                    | Some rs \<Rightarrow>
                        if length rs = 0 then none_found
                        else
                          let formattedResults =
                                join ''\<newline>\<newline>'' (array_map search_products_item 0 rs)
                          in Resolved \<lparr>tool_response.content =
                               [\<lparr>type = ''text'',
                                 text = ''Found '' @ number_to_string (length rs)
                                   @ '' products:\<newline>\<newline>'' @ formattedResults\<rparr>]\<rparr>)))
            (\<lambda>error.
               read_message error (\<lambda>message.
                 Resolved \<lparr>tool_response.content =
                   [\<lparr>type = ''text'',
                     text = ''Error searching products: '' @ template message\<rparr>]\<rparr>)),
          calls'))\<close>

definition get_product_details ::
  "autorag_binding \<Rightarrow> string \<Rightarrow> search_request list
     \<Rightarrow> tool_response settled \<times> search_request list" where
  \<open>get_product_details ai product_name calls =
     (let (awaited, calls') =
            autorag ai \<lparr>index = ''cool-bush-e0f4'', query = product_name, maxResults = 3\<rparr> calls;
          not_found =
            Resolved \<lparr>tool_response.content =
              [\<lparr>type = ''text'', text = ''Product not found: "'' @ product_name @ ''"''\<rparr>]\<rparr>
      in (try_catch
            (await awaited (\<lambda>res.
               case res of None \<Rightarrow> not_found
               | Some r \<Rightarrow>
                   (case results r of None \<Rightarrow> not_found
                    | Some rs \<Rightarrow>
                        if length rs = 0 then not_found
                        else
                          let product = rs ! 0;
                              details =
                                ''Product: '' @ template (js_or (title product) (Some ''Untitled''))
                                  @ ''\<newline>URL: '' @ template (js_or (url product) (Some ''N/A''))
                                  @ ''\<newline>\<newline>Description:\<newline>''
                                  @ template
                                      (js_or (js_or (search_result_item.content product) (snippet product))
                                         (Some ''No description available''))
                          in Resolved \<lparr>tool_response.content =
                               [\<lparr>type = ''text'', text = details\<rparr>]\<rparr>)))
            (\<lambda>error.
               read_message error (\<lambda>message.
                 Resolved \<lparr>tool_response.content =
                   [\<lparr>type = ''text'',
                     text = ''Error fetching product details: '' @ template message\<rparr>]\<rparr>)),
          calls'))\<close>

definition find_dietary_options_item :: "search_result_item \<Rightarrow> nat \<Rightarrow> string" where
  "find_dietary_options_item item i =
     number_to_string (i + 1) @ ''. '' @ template (js_or (title item) (Some ''Untitled''))
       @ ''\<newline>   '' @ template (js_or (url item) (Some ''N/A''))"

definition find_dietary_options ::
  "autorag_binding \<Rightarrow> string \<Rightarrow> string option \<Rightarrow> search_request list
     \<Rightarrow> tool_response settled \<times> search_request list" where
  "find_dietary_options ai dietary_restriction meal_type calls =
     (let q = dietary_restriction;
          q = (if truthy meal_type then q @ '' '' @ template meal_type else q);
          (awaited, calls') =
            autorag ai \<lparr>index = ''cool-bush-e0f4'', query = q, maxResults = 10\<rparr> calls;
          none_found =
            Resolved \<lparr>tool_response.content =
              [\<lparr>type = ''text'',
                text = ''No '' @ dietary_restriction @ '' products found''
                  @ (if truthy meal_type then '' for '' @ template meal_type else [])\<rparr>]\<rparr>
      in (try_catch
            (await awaited (\<lambda>res.
               case res of None \<Rightarrow> none_found
               | Some r \<Rightarrow>
                   (case results r of None \<Rightarrow> none_found
                    | Some rs \<Rightarrow>
                        if length rs = 0 then none_found
                        else
                          let formattedResults =
                                join ''\<newline>\<newline>'' (array_map find_dietary_options_item 0 rs)
                          in Resolved \<lparr>tool_response.content =
                               [\<lparr>type = ''text'',
                                 text = ''Found '' @ number_to_string (length rs) @ '' ''
                                   @ dietary_restriction @ '' products''
                                   @ (if truthy meal_type then '' for '' @ template meal_type else [])
                                   @ '':\<newline>\<newline>'' @ formattedResults\<rparr>]\<rparr>)))
            (\<lambda>error.
               read_message error (\<lambda>message.
                 Resolved \<lparr>tool_response.content =
                   [\<lparr>type = ''text'',
                     text = ''Error finding dietary options: '' @ template message\<rparr>]\<rparr>)),
          calls'))"

definition get_recommendations_item :: "search_result_item \<Rightarrow> nat \<Rightarrow> string" where
  "get_recommendations_item item i =
     number_to_string (i + 1) @ ''. '' @ template (js_or (title item) (Some ''Untitled''))
       @ ''\<newline>   '' @ template (js_or (url item) (Some ''N/A''))
       @ ''\<newline>   '' @ template (js_or (snippet item) (Some []))"

definition get_recommendations ::
  "autorag_binding \<Rightarrow> string \<Rightarrow> string option \<Rightarrow> search_request list
     \<Rightarrow> tool_response settled \<times> search_request list" where
  "get_recommendations ai occasion preferences calls =
     (let q = occasion @ '' gift meal'';
          q = (if truthy preferences then q @ '' '' @ template preferences else q);
          (awaited, calls') =
            autorag ai \<lparr>index = ''cool-bush-e0f4'', query = q, maxResults = 5\<rparr> calls;
          none_found =
            Resolved \<lparr>tool_response.content =
              [\<lparr>type = ''text'', text = ''No recommendations found for '' @ occasion\<rparr>]\<rparr>
      in (try_catch
            (await awaited (\<lambda>res.
               case res of None \<Rightarrow> none_found
               | Some r \<Rightarrow>
                   (case results r of None \<Rightarrow> none_found
                    | Some rs \<Rightarrow>
                        if length rs = 0 then none_found
                        else
                          let formattedResults =
                                join ''\<newline>\<newline>'' (array_map get_recommendations_item 0 rs)
                          in Resolved \<lparr>tool_response.content =
                               [\<lparr>type = ''text'',
                                 text = ''Top recommendations for '' @ occasion
                                   @ (if truthy preferences
                                      then '' ('' @ template preferences @ '')'' else [])
                                   @ '':\<newline>\<newline>'' @ formattedResults\<rparr>]\<rparr>)))
            (\<lambda>error.
               read_message error (\<lambda>message.
                 Resolved \<lparr>tool_response.content =
                   [\<lparr>type = ''text'',
                     text = ''Error getting recommendations: '' @ template message\<rparr>]\<rparr>)),
          calls'))"


section \<open>Tool registration\<close>

text \<open>
  \<^verbatim>\<open>init\<close> registers the four handlers under their names, each with its schema. A
  call that passed the schema is one of four shapes: a required string is a
  \<open>string\<close>, \<^verbatim>\<open>z.string().optional()\<close> a \<open>string option\<close>, and
  \<^verbatim>\<open>z.number().optional().default(10)\<close> a \<open>real option\<close> that the schema layer
  replaces by \<open>10\<close> when it is absent, before the handler runs.
\<close>

datatype tool_call =
    Search_products string "real option"
  | Get_product_details string
  | Find_dietary_options string "string option"
  | Get_recommendations string "string option"

definition zod_default :: "'a \<Rightarrow> 'a option \<Rightarrow> 'a" where
  "zod_default d v = (case v of None \<Rightarrow> d | Some x \<Rightarrow> x)"

fun call_tool ::
  "autorag_binding \<Rightarrow> tool_call \<Rightarrow> search_request list
     \<Rightarrow> tool_response settled \<times> search_request list" where
  "call_tool ai (Search_products q max_results) calls =
     search_products ai q (zod_default 10 max_results) calls"
| "call_tool ai (Get_product_details product_name) calls =
     get_product_details ai product_name calls"
| "call_tool ai (Find_dietary_options dietary_restriction meal_type) calls =
     find_dietary_options ai dietary_restriction meal_type calls"
| "call_tool ai (Get_recommendations occasion preferences) calls =
     get_recommendations ai occasion preferences calls"


section \<open>The transport router\<close>

text \<open>
  \<^verbatim>\<open>JSON.stringify\<close> on the values the router serialises, objects whose leaves are
  strings: members in insertion order, no white space, strings quoted with the
  escapes of the language standard.
\<close>

datatype json = JString string | JObject "(string \<times> json) list"

definition hex_digit :: "nat \<Rightarrow> char" where
  "hex_digit d = ''0123456789abcdef'' ! d"

definition json_escape :: "char \<Rightarrow> string" where
  "json_escape c =
     (if c = CHR 0x22 then [CHR 0x5C, CHR 0x22]
      else if c = CHR 0x5C then [CHR 0x5C, CHR 0x5C]
      else if c = CHR 0x08 then [CHR 0x5C, CHR ''b'']
      else if c = CHR 0x0C then [CHR 0x5C, CHR ''f'']
      else if c = CHR 0x0A then [CHR 0x5C, CHR ''n'']
      else if c = CHR 0x0D then [CHR 0x5C, CHR ''r'']
      else if c = CHR 0x09 then [CHR 0x5C, CHR ''t'']
      else if (of_char c :: nat) < 32
        then [CHR 0x5C, CHR ''u'', CHR ''0'', CHR ''0'',
              hex_digit (of_char c div 16), hex_digit (of_char c mod 16)]
      else [c])"

definition json_quote :: "string \<Rightarrow> string" where
  "json_quote s = [CHR 0x22] @ concat (map json_escape s) @ [CHR 0x22]"

fun JSON_stringify :: "json \<Rightarrow> string" where
  "JSON_stringify (JString s) = json_quote s"
| "JSON_stringify (JObject members) =
     ''{'' @ join '','' (map (\<lambda>(k, v). json_quote k @ '':'' @ JSON_stringify v) members) @ ''}''"

text \<open>
  \<^verbatim>\<open>new Response(body, init)\<close> with a string as body: the status is \<open>200\<close> unless
  \<open>init\<close> gives one; the headers are those of \<open>init\<close>, and when none of them is a
  content type (header names are compared without regard to case) the constructor adds
  the content type of a string body, plain text.
\<close>

definition ascii_lowercase :: "char \<Rightarrow> char" where
  "ascii_lowercase c =
     (case map_of (zip ''ABCDEFGHIJKLMNOPQRSTUVWXYZ'' ''abcdefghijklmnopqrstuvwxyz'') c of
        None \<Rightarrow> c | Some l \<Rightarrow> l)"

record http_response =
  status :: nat
  headers :: "(string \<times> string) list"
  body :: string

definition new_Response :: "string \<Rightarrow> nat option \<Rightarrow> (string \<times> string) list \<Rightarrow> http_response" where
  "new_Response b init_status init_headers =
     \<lparr>status = (case init_status of None \<Rightarrow> 200 | Some s \<Rightarrow> s),
      headers =
        (if filter (\<lambda>h. map ascii_lowercase (fst h) = ''content-type'') init_headers = []
         then init_headers @ [(''Content-Type'', ''text/plain;charset=UTF-8'')]
         else init_headers),
      body = b\<rparr>"

text \<open>
  \<^verbatim>\<open>fetch\<close> reads only \<^verbatim>\<open>new URL(request.url).pathname\<close>, its argument here. It
  hands the request to one of the two transport bindings of the agent, which are not
  part of this program, or answers itself.
\<close>

datatype fetch_result =
    ServeSSE string
  | Serve string
  | Respond http_response

definition fetch :: "string \<Rightarrow> fetch_result" where
  "fetch pathname =
     (if pathname = ''/sse'' \<or> pathname = ''/sse/message'' then ServeSSE ''/sse''
      else if pathname = ''/mcp'' then Serve ''/mcp''
      else if pathname = ''/'' \<or> pathname = ''/health'' then
        Respond (new_Response
          (JSON_stringify (JObject
             [(''name'', JString ''SendaMeal MCP Server''),
              (''version'', JString ''1.0.0''),
              (''status'', JString ''healthy''),
              (''endpoints'', JObject [(''sse'', JString ''/sse''), (''mcp'', JString ''/mcp'')])]))
          None [(''Content-Type'', ''application/json'')])
      else Respond (new_Response ''Not found'' (Some 404) []))"



section \<open>The placeholder rule, as the specification words it\<close>

text \<open>
  The specification's rule for a missing field, to be compared with what the template
  literals of the handlers compute: a field that is absent or empty is rendered as a
  fixed string \<open>d\<close>, any other field as itself.
\<close>

definition placeholder :: "string \<Rightarrow> string option \<Rightarrow> string" where
  "placeholder d v = (case v of None \<Rightarrow> d | Some s \<Rightarrow> if s = [] then d else s)"


section \<open>Properties of the handlers\<close>

lemmas handler_defs =
  search_products_def get_product_details_def find_dietary_options_def
  get_recommendations_def autorag_def await_def try_catch_def read_message_def Let_def

lemma template_or_literal: "template (js_or v (Some d)) = placeholder d v"
  by (cases v) (simp_all add: template_def js_or_def truthy_def placeholder_def)

lemma placeholder_or: "placeholder d (js_or c s) = placeholder (placeholder d s) c"
  by (cases c; cases s) (simp_all add: js_or_def truthy_def placeholder_def)

lemma search_products_item_placeholder:
  "search_products_item =
     (\<lambda>item i. number_to_string (i + 1) @ ''. '' @ placeholder ''Untitled'' (title item)
        @ ''\<newline>   URL: '' @ placeholder ''N/A'' (url item)
        @ ''\<newline>   '' @ placeholder ''No description available'' (snippet item))"
  by (intro ext) (simp add: search_products_item_def template_or_literal)

lemma find_dietary_options_item_placeholder:
  "find_dietary_options_item =
     (\<lambda>item i. number_to_string (i + 1) @ ''. '' @ placeholder ''Untitled'' (title item)
        @ ''\<newline>   '' @ placeholder ''N/A'' (url item))"
  by (intro ext) (simp add: find_dietary_options_item_def template_or_literal)

lemma get_recommendations_item_placeholder:
  "get_recommendations_item =
     (\<lambda>item i. number_to_string (i + 1) @ ''. '' @ placeholder ''Untitled'' (title item)
        @ ''\<newline>   '' @ placeholder ''N/A'' (url item)
        @ ''\<newline>   '' @ placeholder [] (snippet item))"
  by (intro ext) (simp add: get_recommendations_item_def template_or_literal)

lemma one_digit: "n < 10 \<Longrightarrow> number_to_string n = [digit n]"
  by (simp add: number_to_string.simps)


subsection \<open>Rendering of missing fields\<close>

text \<open>
  C1, as the code has it. When the capability resolves with a non-empty sequence, every
  handler renders a missing title as \<open>Untitled\<close> and a missing url as \<open>N/A\<close>;
  \<open>search_products\<close> renders a missing snippet, and \<open>get_product_details\<close> a missing
  content whose snippet is missing too, as \<open>No description available\<close>;
  \<open>find_dietary_options\<close> renders no snippet; \<open>get_recommendations\<close> renders a
  missing snippet as the empty string. No missing field is rendered as \<open>undefined\<close>.
\<close>

theorem missing_fields_rendered:
  assumes "\<forall>request. ai request = Resolved (Some \<lparr>results = Some rs\<rparr>)" and "rs \<noteq> []"
  shows
   "fst (search_products ai q n calls) =
      Resolved \<lparr>tool_response.content = [\<lparr>type = ''text'',
        text = ''Found '' @ number_to_string (length rs) @ '' products:\<newline>\<newline>''
          @ join ''\<newline>\<newline>''
              (array_map
                 (\<lambda>item i. number_to_string (i + 1) @ ''. '' @ placeholder ''Untitled'' (title item)
                    @ ''\<newline>   URL: '' @ placeholder ''N/A'' (url item)
                    @ ''\<newline>   '' @ placeholder ''No description available'' (snippet item))
                 0 rs)\<rparr>]\<rparr>
    \<and> fst (get_product_details ai product_name calls) =
      Resolved \<lparr>tool_response.content = [\<lparr>type = ''text'',
        text = ''Product: '' @ placeholder ''Untitled'' (title (hd rs))
          @ ''\<newline>URL: '' @ placeholder ''N/A'' (url (hd rs))
          @ ''\<newline>\<newline>Description:\<newline>''
          @ placeholder (placeholder ''No description available'' (snippet (hd rs)))
              (search_result_item.content (hd rs))\<rparr>]\<rparr>
    \<and> (\<exists>header. fst (find_dietary_options ai dietary_restriction meal_type calls) =
      Resolved \<lparr>tool_response.content = [\<lparr>type = ''text'',
        text = header @ '':\<newline>\<newline>''
          @ join ''\<newline>\<newline>''
              (array_map
                 (\<lambda>item i. number_to_string (i + 1) @ ''. '' @ placeholder ''Untitled'' (title item)
                    @ ''\<newline>   '' @ placeholder ''N/A'' (url item))
                 0 rs)\<rparr>]\<rparr>)
    \<and> (\<exists>header. fst (get_recommendations ai occasion preferences calls) =
      Resolved \<lparr>tool_response.content = [\<lparr>type = ''text'',
        text = header @ '':\<newline>\<newline>''
          @ join ''\<newline>\<newline>''
              (array_map
                 (\<lambda>item i. number_to_string (i + 1) @ ''. '' @ placeholder ''Untitled'' (title item)
                    @ ''\<newline>   '' @ placeholder ''N/A'' (url item)
                    @ ''\<newline>   '' @ placeholder [] (snippet item))
                 0 rs)\<rparr>]\<rparr>)"
proof -
  have first: "rs ! 0 = hd rs"
    using assms(2) by (simp add: hd_conv_nth)
  have sp: "fst (search_products ai q n calls) =
      Resolved \<lparr>tool_response.content = [\<lparr>type = ''text'',
        text = ''Found '' @ number_to_string (length rs) @ '' products:\<newline>\<newline>''
          @ join ''\<newline>\<newline>''
              (array_map
                 (\<lambda>item i. number_to_string (i + 1) @ ''. '' @ placeholder ''Untitled'' (title item)
                    @ ''\<newline>   URL: '' @ placeholder ''N/A'' (url item)
                    @ ''\<newline>   '' @ placeholder ''No description available'' (snippet item))
                 0 rs)\<rparr>]\<rparr>"
    using assms by (simp add: handler_defs search_products_item_placeholder)
  have gpd: "fst (get_product_details ai product_name calls) =
      Resolved \<lparr>tool_response.content = [\<lparr>type = ''text'',
        text = ''Product: '' @ placeholder ''Untitled'' (title (hd rs))
          @ ''\<newline>URL: '' @ placeholder ''N/A'' (url (hd rs))
          @ ''\<newline>\<newline>Description:\<newline>''
          @ placeholder (placeholder ''No description available'' (snippet (hd rs)))
              (search_result_item.content (hd rs))\<rparr>]\<rparr>"
    using assms by (simp add: handler_defs first template_or_literal placeholder_or)
  have fdo: "fst (find_dietary_options ai dietary_restriction meal_type calls) =
      Resolved \<lparr>tool_response.content = [\<lparr>type = ''text'',
        text = (''Found '' @ number_to_string (length rs) @ '' '' @ dietary_restriction
                  @ '' products''
                  @ (if truthy meal_type then '' for '' @ template meal_type else []))
          @ '':\<newline>\<newline>''
          @ join ''\<newline>\<newline>''
              (array_map
                 (\<lambda>item i. number_to_string (i + 1) @ ''. '' @ placeholder ''Untitled'' (title item)
                    @ ''\<newline>   '' @ placeholder ''N/A'' (url item))
                 0 rs)\<rparr>]\<rparr>"
    using assms by (simp add: handler_defs find_dietary_options_item_placeholder)
  have gr: "fst (get_recommendations ai occasion preferences calls) =
      Resolved \<lparr>tool_response.content = [\<lparr>type = ''text'',
        text = (''Top recommendations for '' @ occasion
                  @ (if truthy preferences then '' ('' @ template preferences @ '')'' else []))
          @ '':\<newline>\<newline>''
          @ join ''\<newline>\<newline>''
              (array_map
                 (\<lambda>item i. number_to_string (i + 1) @ ''. '' @ placeholder ''Untitled'' (title item)
                    @ ''\<newline>   '' @ placeholder ''N/A'' (url item)
                    @ ''\<newline>   '' @ placeholder [] (snippet item))
                 0 rs)\<rparr>]\<rparr>"
    using assms by (simp add: handler_defs get_recommendations_item_placeholder)
  from sp gpd fdo gr show ?thesis
    by blast
qed

theorem missing_fields_rendered_witness:
  "(\<forall>request. (\<lambda>_. Resolved (Some \<lparr>results = Some
        [\<lparr>title = None, url = None, snippet = None, search_result_item.content = None\<rparr>]\<rparr>))
        (request :: search_request)
      = Resolved (Some \<lparr>results = Some
        [\<lparr>title = None, url = None, snippet = None, search_result_item.content = None\<rparr>]\<rparr>))
   \<and> [\<lparr>title = None, url = None, snippet = None, search_result_item.content = None\<rparr>] \<noteq> []
   \<and> fst (search_products
        (\<lambda>_. Resolved (Some \<lparr>results = Some
           [\<lparr>title = None, url = None, snippet = None, search_result_item.content = None\<rparr>]\<rparr>))
        ''soup'' 10 []) =
      Resolved \<lparr>tool_response.content = [\<lparr>type = ''text'',
        text = ''Found 1 products:\<newline>\<newline>1. Untitled\<newline>   URL: N/A\<newline>   No description available''\<rparr>]\<rparr>
   \<and> fst (get_product_details
        (\<lambda>_. Resolved (Some \<lparr>results = Some
           [\<lparr>title = None, url = None, snippet = None, search_result_item.content = None\<rparr>]\<rparr>))
        ''soup'' []) =
      Resolved \<lparr>tool_response.content = [\<lparr>type = ''text'',
        text = ''Product: Untitled\<newline>URL: N/A\<newline>\<newline>Description:\<newline>No description available''\<rparr>]\<rparr>
   \<and> (\<exists>header. fst (find_dietary_options
        (\<lambda>_. Resolved (Some \<lparr>results = Some
           [\<lparr>title = None, url = None, snippet = None, search_result_item.content = None\<rparr>]\<rparr>))
        ''vegan'' (Some ''dinner'') []) =
      Resolved \<lparr>tool_response.content = [\<lparr>type = ''text'',
        text = header @ '':\<newline>\<newline>1. Untitled\<newline>   N/A''\<rparr>]\<rparr>)
   \<and> (\<exists>header. fst (get_recommendations
        (\<lambda>_. Resolved (Some \<lparr>results = Some
           [\<lparr>title = None, url = None, snippet = None, search_result_item.content = None\<rparr>]\<rparr>))
        ''birthday'' (Some ''chocolate'') []) =
      Resolved \<lparr>tool_response.content = [\<lparr>type = ''text'',
        text = header @ '':\<newline>\<newline>1. Untitled\<newline>   N/A\<newline>   ''\<rparr>]\<rparr>)"
  using missing_fields_rendered
          [of "\<lambda>_. Resolved (Some \<lparr>results = Some
                 [\<lparr>title = None, url = None, snippet = None, search_result_item.content = None\<rparr>]\<rparr>)"
              "[\<lparr>title = None, url = None, snippet = None, search_result_item.content = None\<rparr>]"
              "''soup''" 10 "[]" "''soup''" "''vegan''" "Some ''dinner''" "''birthday''"
              "Some ''chocolate''"]
  by (simp add: placeholder_def one_digit digit_def)

text \<open>
  The claim as the specification states it fails on the snippet line of
  \<open>get_recommendations\<close>: for an item without a snippet the line is the indent with
  nothing after it, not \<open>No description available\<close>.
\<close>

theorem get_recommendations_snippet_counterexample:
  "fst (get_recommendations
         (\<lambda>_. Resolved (Some \<lparr>results = Some
            [\<lparr>title = Some ''Cake'', url = Some ''/cake'', snippet = None,
              search_result_item.content = None\<rparr>]\<rparr>))
         ''birthday'' None []) =
     Resolved \<lparr>tool_response.content = [\<lparr>type = ''text'',
        text = ''Top recommendations for birthday:\<newline>\<newline>1. Cake\<newline>   /cake\<newline>   ''\<rparr>]\<rparr>
   \<and> fst (get_recommendations
         (\<lambda>_. Resolved (Some \<lparr>results = Some
            [\<lparr>title = Some ''Cake'', url = Some ''/cake'', snippet = None,
              search_result_item.content = None\<rparr>]\<rparr>))
         ''birthday'' None []) \<noteq>
     Resolved \<lparr>tool_response.content = [\<lparr>type = ''text'',
        text = ''Top recommendations for birthday:\<newline>\<newline>1. Cake\<newline>   /cake\<newline>   No description available''\<rparr>]\<rparr>"
  by (simp add: handler_defs truthy_def get_recommendations_item_def template_def js_or_def
      one_digit digit_def)


subsection \<open>One text block, and the rejection that escapes\<close>

text \<open>
  Whenever the capability resolves, and whenever it rejects with a value other than
  \<^verbatim>\<open>undefined\<close> and \<^verbatim>\<open>null\<close>, the promise of the handler resolves with an envelope of
  exactly one block, of type \<open>text\<close>: for each of the four tools and every input
  that passes its schema.
\<close>

lemma one_text_block_unless_nullish:
  assumes "\<forall>request. ai request \<noteq> Rejected Thrown_undefined \<and> ai request \<noteq> Rejected Thrown_null"
  shows "\<exists>t. fst (call_tool ai call calls) =
          Resolved \<lparr>tool_response.content = [\<lparr>type = ''text'', text = t\<rparr>]\<rparr>"
proof (cases call)
  case (Search_products q max_results)
  with assms show ?thesis
    by (simp add: search_products_def autorag_def await_def try_catch_def read_message_def
        Let_def split: settled.split option.split thrown.split)
next
  case (Get_product_details product_name)
  with assms show ?thesis
    by (simp add: get_product_details_def autorag_def await_def try_catch_def read_message_def
        Let_def split: settled.split option.split thrown.split)
next
  case (Find_dietary_options dietary_restriction meal_type)
  with assms show ?thesis
    by (simp add: find_dietary_options_def autorag_def await_def try_catch_def read_message_def
        Let_def split: settled.split option.split thrown.split)
next
  case (Get_recommendations occasion preferences)
  with assms show ?thesis
    by (simp add: get_recommendations_def autorag_def await_def try_catch_def read_message_def
        Let_def split: settled.split option.split thrown.split)
qed

text \<open>
  C2 says that for each of the four tools, every input that passes its schema and
  every behaviour of the capability, the handler returns an envelope of exactly one
  text block and no error escapes it. The handlers fall short of that where the
  capability rejects with \<^verbatim>\<open>undefined\<close> or \<^verbatim>\<open>null\<close>: the \<^verbatim>\<open>catch\<close> clause, which is
  there to turn the failure into a text block, reads \<^verbatim>\<open>error.message\<close> unguarded and
  throws in its turn, so the promise of the handler rejects with a \<^verbatim>\<open>TypeError\<close> and
  there is no envelope. This holds for every tool and every argument.
\<close>

theorem call_tool_nullish_rejection_escapes:
  "fst (call_tool (\<lambda>_. Rejected Thrown_undefined) call calls) =
     Rejected (Thrown_value (Some ''Cannot read properties of undefined (reading 'message')''))
   \<and> fst (call_tool (\<lambda>_. Rejected Thrown_null) call calls) =
     Rejected (Thrown_value (Some ''Cannot read properties of null (reading 'message')''))
   \<and> fst (call_tool (\<lambda>_. Rejected Thrown_undefined) (Search_products ''soup'' None) []) \<noteq>
     Resolved \<lparr>tool_response.content = [\<lparr>type = ''text'', text = t\<rparr>]\<rparr>"
  by (cases call) (simp_all add: handler_defs)


subsection \<open>Error path of search_products\<close>

text \<open>
  C3. Whatever the query and the limit, when the search capability rejects the request
  of \<open>search_products\<close> with an error whose message is \<open>M\<close>, the handler resolves
  with one text block whose text is \<open>Error searching products: \<close> followed by \<open>M\<close>.
\<close>

theorem search_products_error_text:
  assumes "ai \<lparr>index = ''cool-bush-e0f4'', query = q, maxResults = n\<rparr>
             = Rejected (Thrown_value (Some M))"
  shows "fst (search_products ai q n calls) =
           Resolved \<lparr>tool_response.content =
             [\<lparr>type = ''text'', text = ''Error searching products: '' @ M\<rparr>]\<rparr>"
  using assms by (simp add: handler_defs template_def)

theorem search_products_error_text_witness:
  "(\<lambda>_. Rejected (Thrown_value (Some ''index offline'')))
      \<lparr>index = ''cool-bush-e0f4'', query = ''soup'', maxResults = 10\<rparr>
     = (Rejected (Thrown_value (Some ''index offline'')) :: search_response option settled)
   \<and> fst (search_products (\<lambda>_. Rejected (Thrown_value (Some ''index offline''))) ''soup'' 10 []) =
     Resolved \<lparr>tool_response.content =
       [\<lparr>type = ''text'', text = ''Error searching products: index offline''\<rparr>]\<rparr>"
  using search_products_error_text
          [of "\<lambda>_. Rejected (Thrown_value (Some ''index offline''))" "''soup''" 10 "''index offline''" "[]"]
  by simp


subsection \<open>The query get_recommendations sends\<close>

text \<open>
  C4, as the code has it. \<open>get_recommendations\<close> sends the capability one request.
  Its query is the occasion followed by \<open> gift meal\<close> and, when preferences is
  supplied and is not the empty string, by a space and the preferences; preferences
  that are omitted or empty add nothing, not even the space.
\<close>

theorem get_recommendations_query:
  "snd (get_recommendations ai occasion preferences calls) =
     calls @ [\<lparr>index = ''cool-bush-e0f4'',
               query = occasion @ '' gift meal'' @
                 (case preferences of None \<Rightarrow> []
                  | Some p \<Rightarrow> if p = [] then [] else '' '' @ p),
               maxResults = 5\<rparr>]"
  by (simp add: handler_defs truthy_def template_def split: option.split)

theorem get_recommendations_query_witness:
  "snd (get_recommendations (\<lambda>_. Resolved None) ''birthday'' (Some ''chocolate'') []) =
     [\<lparr>index = ''cool-bush-e0f4'', query = ''birthday gift meal chocolate'', maxResults = 5\<rparr>]"
  using get_recommendations_query
          [of "\<lambda>_. Resolved None" "''birthday''" "Some ''chocolate''" "[]"]
  by simp

text \<open>
  The claim as stated fails when preferences is supplied as the empty string: the
  query then is not the occasion, \<open> gift meal\<close>, a space and the preferences.
\<close>

theorem get_recommendations_query_counterexample:
  "map query (snd (get_recommendations (\<lambda>_. Resolved None) ''birthday'' (Some []) [])) =
     [''birthday gift meal'']
   \<and> map query (snd (get_recommendations (\<lambda>_. Resolved None) ''birthday'' (Some []) [])) \<noteq>
     [''birthday'' @ '' gift meal'' @ '' '' @ []]"
  by (simp add: handler_defs truthy_def)


subsection \<open>Two vegan products\<close>

text \<open>
  C5. When \<open>find_dietary_options\<close> is called with the restriction \<open>vegan\<close> and no
  meal type, and the capability resolves its request with a sequence of two items, the
  text begins with \<open>Found 2 vegan products:\<close> and lists the two items in the
  capability's order, the first after \<open>1. \<close> and the second after \<open>2. \<close>.
\<close>

theorem find_dietary_options_two_vegan:
  assumes "ai \<lparr>index = ''cool-bush-e0f4'', query = ''vegan'', maxResults = 10\<rparr>
             = Resolved (Some \<lparr>results = Some [first, second]\<rparr>)"
  shows "fst (find_dietary_options ai ''vegan'' None calls) =
           Resolved \<lparr>tool_response.content =
             [\<lparr>type = ''text'',
               text = ''Found 2 vegan products:'' @ ''\<newline>\<newline>''
                  @ ''1. '' @ placeholder ''Untitled'' (title first)
                  @ ''\<newline>   '' @ placeholder ''N/A'' (url first)
                  @ ''\<newline>\<newline>''
                  @ ''2. '' @ placeholder ''Untitled'' (title second)
                  @ ''\<newline>   '' @ placeholder ''N/A'' (url second)\<rparr>]\<rparr>"
  using assms
  by (simp add: handler_defs truthy_def find_dietary_options_item_placeholder one_digit digit_def)

theorem find_dietary_options_two_vegan_witness:
  "(\<lambda>_. Resolved (Some \<lparr>results = Some
        [\<lparr>title = Some ''Lentil Soup'', url = Some ''/lentil-soup'', snippet = None,
           search_result_item.content = None\<rparr>,
         \<lparr>title = Some ''Tofu Bowl'', url = None, snippet = None,
           search_result_item.content = None\<rparr>]\<rparr>))
      \<lparr>index = ''cool-bush-e0f4'', query = ''vegan'', maxResults = 10\<rparr>
     = Resolved (Some \<lparr>results = Some
        [\<lparr>title = Some ''Lentil Soup'', url = Some ''/lentil-soup'', snippet = None,
           search_result_item.content = None\<rparr>,
         \<lparr>title = Some ''Tofu Bowl'', url = None, snippet = None,
           search_result_item.content = None\<rparr>]\<rparr>)
   \<and> fst (find_dietary_options
         (\<lambda>_. Resolved (Some \<lparr>results = Some
            [\<lparr>title = Some ''Lentil Soup'', url = Some ''/lentil-soup'', snippet = None,
               search_result_item.content = None\<rparr>,
             \<lparr>title = Some ''Tofu Bowl'', url = None, snippet = None,
               search_result_item.content = None\<rparr>]\<rparr>))
         ''vegan'' None []) =
       Resolved \<lparr>tool_response.content =
         [\<lparr>type = ''text'',
           text = ''Found 2 vegan products:\<newline>\<newline>1. Lentil Soup\<newline>   /lentil-soup\<newline>\<newline>2. Tofu Bowl\<newline>   N/A''\<rparr>]\<rparr>"
  using find_dietary_options_two_vegan
          [of "\<lambda>_. Resolved (Some \<lparr>results = Some
                 [\<lparr>title = Some ''Lentil Soup'', url = Some ''/lentil-soup'', snippet = None,
                    search_result_item.content = None\<rparr>,
                  \<lparr>title = Some ''Tofu Bowl'', url = None, snippet = None,
                    search_result_item.content = None\<rparr>]\<rparr>)"
              "\<lparr>title = Some ''Lentil Soup'', url = Some ''/lentil-soup'', snippet = None,
                 search_result_item.content = None\<rparr>"
              "\<lparr>title = Some ''Tofu Bowl'', url = None, snippet = None,
                 search_result_item.content = None\<rparr>"
              "[]"]
  by (simp add: placeholder_def)


subsection \<open>Product not found\<close>

text \<open>
  C6. Whatever the product name, when the capability resolves the request of
  \<open>get_product_details\<close> with no response, with a response without a results field,
  or with an empty sequence, the text is \<open>Product not found: \<close> followed by the
  product name between double quotes.
\<close>

theorem get_product_details_not_found:
  assumes "ai \<lparr>index = ''cool-bush-e0f4'', query = product_name, maxResults = 3\<rparr>
             \<in> {Resolved None, Resolved (Some \<lparr>results = None\<rparr>),
                Resolved (Some \<lparr>results = Some []\<rparr>)}"
  shows \<open>fst (get_product_details ai product_name calls) =
           Resolved \<lparr>tool_response.content =
             [\<lparr>type = ''text'', text = ''Product not found: "'' @ product_name @ ''"''\<rparr>]\<rparr>\<close>
  using assms by (auto simp add: handler_defs)

theorem get_product_details_not_found_witness:
  \<open>(\<lambda>_. Resolved (Some \<lparr>results = Some []\<rparr>))
      \<lparr>index = ''cool-bush-e0f4'', query = ''Unicorn Cake'', maxResults = 3\<rparr>
     \<in> {Resolved None, Resolved (Some \<lparr>results = None\<rparr>),
        Resolved (Some \<lparr>results = Some []\<rparr>)}
   \<and> fst (get_product_details (\<lambda>_. Resolved (Some \<lparr>results = Some []\<rparr>)) ''Unicorn Cake'' []) =
       Resolved \<lparr>tool_response.content =
         [\<lparr>type = ''text'', text = ''Product not found: "Unicorn Cake"''\<rparr>]\<rparr>\<close>
  using get_product_details_not_found
          [of "\<lambda>_. Resolved (Some \<lparr>results = Some []\<rparr>)" "''Unicorn Cake''" "[]"]
  by simp


subsection \<open>Result limits\<close>

text \<open>
  C7. Every tool call sends the capability exactly one request, with the limit of its
  tool: \<open>search_products\<close> the \<open>max_results\<close> of the caller, or \<open>10\<close> when the
  caller gives none; \<open>get_product_details\<close> always \<open>3\<close>, \<open>find_dietary_options\<close>
  always \<open>10\<close>, \<open>get_recommendations\<close> always \<open>5\<close>, whatever their arguments.
\<close>

theorem call_tool_result_limit:
  "map maxResults (snd (call_tool ai (Search_products q (Some n)) calls)) =
     map maxResults calls @ [n]
   \<and> map maxResults (snd (call_tool ai (Search_products q None) calls)) =
     map maxResults calls @ [10]
   \<and> map maxResults (snd (call_tool ai (Get_product_details product_name) calls)) =
     map maxResults calls @ [3]
   \<and> map maxResults (snd (call_tool ai (Find_dietary_options dietary_restriction meal_type) calls)) =
     map maxResults calls @ [10]
   \<and> map maxResults (snd (call_tool ai (Get_recommendations occasion preferences) calls)) =
     map maxResults calls @ [5]"
  by (simp add: handler_defs zod_default_def)


subsection \<open>The health check\<close>

text \<open>
  C8. The paths \<open>/\<close> and \<open>/health\<close> are answered alike: status \<open>200\<close>, the header
  \<open>Content-Type: application/json\<close>, and as body the serialisation of one fixed
  object with the keys \<open>name\<close>, \<open>version\<close>, \<open>status\<close> (the string
  \<open>healthy\<close>) and \<open>endpoints\<close> (an object with \<open>sse\<close> = \<open>/sse\<close> and
  \<open>mcp\<close> = \<open>/mcp\<close>).
\<close>

theorem fetch_health_check:
  \<open>fetch ''/'' = fetch ''/health'' \<and>
   fetch ''/health'' =
     Respond \<lparr>status = 200, headers = [(''Content-Type'', ''application/json'')],
       body = JSON_stringify (JObject
             [(''name'', JString ''SendaMeal MCP Server''),
              (''version'', JString ''1.0.0''),
              (''status'', JString ''healthy''),
              (''endpoints'', JObject [(''sse'', JString ''/sse''), (''mcp'', JString ''/mcp'')])])\<rparr> \<and>
   JSON_stringify (JObject
             [(''name'', JString ''SendaMeal MCP Server''),
              (''version'', JString ''1.0.0''),
              (''status'', JString ''healthy''),
              (''endpoints'', JObject [(''sse'', JString ''/sse''), (''mcp'', JString ''/mcp'')])])
     = ''{"name":"SendaMeal MCP Server","version":"1.0.0","status":"healthy","endpoints":{"sse":"/sse","mcp":"/mcp"}}''\<close>
  by (simp add: fetch_def new_Response_def ascii_lowercase_def json_quote_def json_escape_def)


subsection \<open>Any other path\<close>

text \<open>
  C9. A path that is none of \<open>/sse\<close>, \<open>/sse/message\<close>, \<open>/mcp\<close>, \<open>/\<close> and
  \<open>/health\<close> is answered with status \<open>404\<close> and the body \<open>Not found\<close>, sent as
  plain text. Each of the four outcomes of the router belongs to exactly its own
  paths, so every path takes exactly one branch.
\<close>

theorem fetch_not_found:
  "(pathname \<notin> {''/sse'', ''/sse/message'', ''/mcp'', ''/'', ''/health''} \<longrightarrow>
      fetch pathname = Respond \<lparr>status = 404, headers = [(''Content-Type'', ''text/plain;charset=UTF-8'')],
          body = ''Not found''\<rparr>)
   \<and> (fetch pathname = ServeSSE ''/sse'') = (pathname \<in> {''/sse'', ''/sse/message''})
   \<and> (fetch pathname = Serve ''/mcp'') = (pathname = ''/mcp'')
   \<and> (fetch pathname = fetch ''/'') = (pathname \<in> {''/'', ''/health''})
   \<and> (fetch pathname = Respond \<lparr>status = 404, headers = [(''Content-Type'', ''text/plain;charset=UTF-8'')],
          body = ''Not found''\<rparr>) =
        (pathname \<notin> {''/sse'', ''/sse/message'', ''/mcp'', ''/'', ''/health''})"
  by (simp add: fetch_def new_Response_def ascii_lowercase_def)

theorem fetch_not_found_witness:
  "''/nope'' \<notin> {''/sse'', ''/sse/message'', ''/mcp'', ''/'', ''/health''}
   \<and> fetch ''/nope'' = Respond \<lparr>status = 404, headers = [(''Content-Type'', ''text/plain;charset=UTF-8'')],
          body = ''Not found''\<rparr>"
  using fetch_not_found [of "''/nope''"] by simp


subsection \<open>An empty optional argument is an omitted one\<close>

text \<open>
  C10. \<open>find_dietary_options\<close> with the empty string as meal type sends the request
  and returns the response of the call without a meal type, whatever the capability
  does; so does \<open>get_recommendations\<close> with the empty string as preferences.
\<close>

theorem empty_optional_argument_is_omitted:
  "find_dietary_options ai dietary_restriction (Some []) calls =
     find_dietary_options ai dietary_restriction None calls
   \<and> get_recommendations ai occasion (Some []) calls =
     get_recommendations ai occasion None calls"
  by (simp add: find_dietary_options_def get_recommendations_def truthy_def)

end
